theory Spec2Isabelle
  imports Main
begin

section \<open>JavaScript values\<close>

text \<open>
  The server actions of the dashboard (\<^verbatim>\<open>createInvoice\<close>, \<^verbatim>\<open>updateInvoice\<close>,
  \<^verbatim>\<open>authenticate\<close>) and the search box (\<^verbatim>\<open>handleSearch\<close>) are TypeScript. They
  are embedded here as HOL functions over the JavaScript values they handle. A string
  is the list of its UTF-8 bytes.
\<close>

subsection \<open>Numbers\<close>

text \<open>
  A JavaScript number is an IEEE 754 binary64 value: not-a-number, an infinity with
  its sign, or a finite value of magnitude \<open>m * 2 ^ e\<close>. \<open>Finite s m e\<close> holds the sign
  (\<open>True\<close> is negative), the mantissa \<open>m\<close> and the binary exponent \<open>e\<close>. The operations
  below return a finite value in normal form: \<open>m\<close> is odd, or the value is a zero
  \<open>Finite s 0 0\<close> (both zeros exist). So \<open>1234\<close> is \<open>Finite False 617 1\<close>.
\<close>

datatype jsnum = NaN | Infinity bool | Finite bool nat int

fun bit_length :: "nat \<Rightarrow> nat" where
  "bit_length n = (if n = 0 then 0 else Suc (bit_length (n div 2)))"

declare bit_length.simps [simp del]

fun norm :: "nat \<Rightarrow> int \<Rightarrow> nat \<times> int" where
  "norm m e = (if m = 0 then (0, 0) else if even m then norm (m div 2) (e + 1) else (m, e))"

declare norm.simps [simp del]

text \<open>
  \<open>round_ratio s n d\<close> is the binary64 value nearest to the fraction \<open>n / d\<close> (\<open>d > 0\<close>)
  with sign \<open>s\<close>, ties to even. \<open>l\<close> is the integer part of the binary logarithm of
  \<open>n / d\<close>; the significand \<open>m\<close> is \<open>n / d / 2 ^ e\<close> rounded to an integer, of at most 53
  bits, where \<open>e\<close> is no less than the exponent \<open>-1074\<close> of the subnormal numbers; a
  rounded value of \<open>2 ^ 1024\<close> or more is an infinity.
\<close>

definition round_ratio :: "bool \<Rightarrow> nat \<Rightarrow> nat \<Rightarrow> jsnum" where
  "round_ratio s n d =
     (if n = 0 then Finite s 0 0
      else let k = int (bit_length n) - int (bit_length d);
               l = (if d * 2 ^ nat k \<le> n * 2 ^ nat (- k) then k else k - 1);
               e = max (l - 52) (- 1074);
               N = n * 2 ^ nat (- e);
               D = d * 2 ^ nat e;
               f = N div D;
               r = N mod D;
               m = (if 2 * r < D then f else if D < 2 * r then f + 1
                    else if even f then f else f + 1)
           in if 0 \<le> e \<and> 2 ^ 1024 \<le> m * 2 ^ nat e then Infinity s
              else case norm m e of (m', e') \<Rightarrow> Finite s m' e')"

definition js_nat :: "nat \<Rightarrow> jsnum" where
  "js_nat n = round_ratio False n 1"

text \<open>The \<^verbatim>\<open>*\<close> operator on numbers.\<close>

fun js_mul :: "jsnum \<Rightarrow> jsnum \<Rightarrow> jsnum" where
  "js_mul NaN y = NaN"
| "js_mul x NaN = NaN"
| "js_mul (Infinity s) (Infinity t) = Infinity (s \<noteq> t)"
| "js_mul (Infinity s) (Finite t m e) = (if m = 0 then NaN else Infinity (s \<noteq> t))"
| "js_mul (Finite s m e) (Infinity t) = (if m = 0 then NaN else Infinity (s \<noteq> t))"
| "js_mul (Finite s m e) (Finite t m' e') =
     round_ratio (s \<noteq> t) (m * m' * 2 ^ nat (e + e')) (2 ^ nat (- (e + e')))"

text \<open>The \<^verbatim>\<open><=\<close> operator on numbers: false whenever an operand is \<^verbatim>\<open>NaN\<close>.\<close>

definition signed :: "bool \<Rightarrow> nat \<Rightarrow> int" where
  "signed s m = (if s then - int m else int m)"

fun js_le :: "jsnum \<Rightarrow> jsnum \<Rightarrow> bool" where
  "js_le NaN y = False"
| "js_le x NaN = False"
| "js_le (Infinity s) (Infinity t) = (s \<or> \<not> t)"
| "js_le (Infinity s) (Finite t m e) = s"
| "js_le (Finite s m e) (Infinity t) = (\<not> t)"
| "js_le (Finite s m e) (Finite t m' e') =
     (signed s m * 2 ^ nat (e - e') \<le> signed t m' * 2 ^ nat (e' - e))"

subsection \<open>String to number\<close>

text \<open>
  \<^verbatim>\<open>Number(s)\<close> on a string follows the \<^verbatim>\<open>StringNumericLiteral\<close> grammar of
  ECMAScript: white space and line terminators (here as UTF-8 byte sequences) are
  trimmed at both ends; the empty string is \<open>+0\<close>; a signed decimal literal, with an
  optional fraction and exponent, or an unsigned binary, octal or hexadecimal integer
  literal is its value rounded to binary64; anything else is \<^verbatim>\<open>NaN\<close>.
\<close>

definition StrWhiteSpaceChar :: "string list" where
  "StrWhiteSpaceChar =
     [[CHR 0x09], [CHR 0x0A], [CHR 0x0B], [CHR 0x0C], [CHR 0x0D], [CHR 0x20],
      [CHR 0xC2, CHR 0xA0], [CHR 0xE1, CHR 0x9A, CHR 0x80],
      [CHR 0xE2, CHR 0x80, CHR 0x80], [CHR 0xE2, CHR 0x80, CHR 0x81],
      [CHR 0xE2, CHR 0x80, CHR 0x82], [CHR 0xE2, CHR 0x80, CHR 0x83],
      [CHR 0xE2, CHR 0x80, CHR 0x84], [CHR 0xE2, CHR 0x80, CHR 0x85],
      [CHR 0xE2, CHR 0x80, CHR 0x86], [CHR 0xE2, CHR 0x80, CHR 0x87],
      [CHR 0xE2, CHR 0x80, CHR 0x88], [CHR 0xE2, CHR 0x80, CHR 0x89],
      [CHR 0xE2, CHR 0x80, CHR 0x8A], [CHR 0xE2, CHR 0x80, CHR 0xA8],
      [CHR 0xE2, CHR 0x80, CHR 0xA9], [CHR 0xE2, CHR 0x80, CHR 0xAF],
      [CHR 0xE2, CHR 0x81, CHR 0x9F], [CHR 0xE3, CHR 0x80, CHR 0x80],
      [CHR 0xEF, CHR 0xBB, CHR 0xBF]]"

fun ws_prefix :: "string list \<Rightarrow> string \<Rightarrow> nat" where
  "ws_prefix [] s = 0"
| "ws_prefix (w # ws) s =
     (if w \<noteq> [] \<and> take (length w) s = w then length w else ws_prefix ws s)"

function trim_start :: "string list \<Rightarrow> string \<Rightarrow> string" where
  "trim_start ws s =
     (if ws_prefix ws s = 0 then s else trim_start ws (drop (ws_prefix ws s) s))"
  by pat_completeness auto
termination
proof (relation "measure (\<lambda>(ws, s). length s)")
  show "wf (measure (\<lambda>(ws :: string list, s :: string). length s))"
    by simp
next
  fix ws :: "string list" and s :: string
  assume pos: "ws_prefix ws s \<noteq> 0"
  then have "s \<noteq> []"
    by (induction ws) (auto split: if_splits)
  with pos show "((ws, drop (ws_prefix ws s) s), (ws, s)) \<in> measure (\<lambda>(ws, s). length s)"
    by simp
qed

declare trim_start.simps [simp del]

definition trim :: "string \<Rightarrow> string" where
  "trim s = rev (trim_start (map rev StrWhiteSpaceChar) (rev (trim_start StrWhiteSpaceChar s)))"

definition is_digit :: "char \<Rightarrow> bool" where
  "is_digit c = (48 \<le> (of_char c :: nat) \<and> (of_char c :: nat) \<le> 57)"

definition digit_value :: "char \<Rightarrow> nat" where
  "digit_value c =
     (let n = of_char c
      in if 48 \<le> n \<and> n \<le> 57 then n - 48
         else if 97 \<le> n \<and> n \<le> 102 then n - 87
         else if 65 \<le> n \<and> n \<le> 70 then n - 55
         else 16)"

definition digits_value :: "nat \<Rightarrow> string \<Rightarrow> nat" where
  "digits_value b ds = foldl (\<lambda>a c. a * b + digit_value c) 0 ds"

definition all_digits :: "nat \<Rightarrow> string \<Rightarrow> bool" where
  "all_digits b ds = (ds \<noteq> [] \<and> list_all (\<lambda>c. digit_value c < b) ds)"

definition SignedInteger :: "string \<Rightarrow> int option" where
  "SignedInteger s =
     (case s of
        [] \<Rightarrow> None
      | c # t \<Rightarrow>
          if c = CHR ''+'' then (if all_digits 10 t then Some (int (digits_value 10 t)) else None)
          else if c = CHR ''-'' then (if all_digits 10 t then Some (- int (digits_value 10 t)) else None)
          else if all_digits 10 s then Some (int (digits_value 10 s)) else None)"

definition ExponentPart :: "string \<Rightarrow> int option" where
  "ExponentPart s =
     (case s of
        [] \<Rightarrow> Some 0
      | c # t \<Rightarrow> if c = CHR ''e'' \<or> c = CHR ''E'' then SignedInteger t else None)"

definition StrUnsignedDecimalLiteral :: "bool \<Rightarrow> string \<Rightarrow> jsnum" where
  "StrUnsignedDecimalLiteral neg s =
     (if s = ''Infinity'' then Infinity neg
      else let ip = takeWhile is_digit s;
               r = dropWhile is_digit s;
               fp = (case r of [] \<Rightarrow> [] | c # t \<Rightarrow> if c = CHR ''.'' then takeWhile is_digit t else []);
               r' = (case r of [] \<Rightarrow> [] | c # t \<Rightarrow> if c = CHR ''.'' then dropWhile is_digit t else r)
           in if ip = [] \<and> fp = [] then NaN
              else case ExponentPart r' of
                     None \<Rightarrow> NaN
                   | Some k \<Rightarrow>
                       let x = k - int (length fp)
                       in round_ratio neg (digits_value 10 (ip @ fp) * 10 ^ nat x) (10 ^ nat (- x)))"

definition NonDecimalIntegerLiteral :: "string \<Rightarrow> jsnum option" where
  "NonDecimalIntegerLiteral s =
     (case s of
        a # b # t \<Rightarrow>
          if a \<noteq> CHR ''0'' then None
          else if b = CHR ''x'' \<or> b = CHR ''X''
            then Some (if all_digits 16 t then js_nat (digits_value 16 t) else NaN)
          else if b = CHR ''o'' \<or> b = CHR ''O''
            then Some (if all_digits 8 t then js_nat (digits_value 8 t) else NaN)
          else if b = CHR ''b'' \<or> b = CHR ''B''
            then Some (if all_digits 2 t then js_nat (digits_value 2 t) else NaN)
          else None
      | _ \<Rightarrow> None)"

definition StringToNumber :: "string \<Rightarrow> jsnum" where
  "StringToNumber s =
     (let t = trim s
      in case t of
           [] \<Rightarrow> Finite False 0 0
         | c # u \<Rightarrow>
             (case NonDecimalIntegerLiteral t of
                Some v \<Rightarrow> v
              | None \<Rightarrow>
                  if c = CHR ''+'' then StrUnsignedDecimalLiteral False u
                  else if c = CHR ''-'' then StrUnsignedDecimalLiteral True u
                  else StrUnsignedDecimalLiteral False t))"

subsection \<open>Values and form data\<close>

text \<open>
  The values the actions handle: \<^verbatim>\<open>undefined\<close>, \<^verbatim>\<open>null\<close>, a string, a number, or a
  \<^verbatim>\<open>File\<close> object (the only object a form entry can be). An object literal is read by
  property name, \<^verbatim>\<open>undefined\<close> where it has no such property.
\<close>

datatype jsval = Undefined | Null | Str string | Num jsnum | FileObject

type_synonym jsobject = "string \<Rightarrow> jsval"

text \<open>
  \<^verbatim>\<open>Number(v)\<close>: \<^verbatim>\<open>undefined\<close> is \<^verbatim>\<open>NaN\<close>, \<^verbatim>\<open>null\<close> is \<open>+0\<close>, and a \<^verbatim>\<open>File\<close> converts
  through its string \<^verbatim>\<open>[object File]\<close>, which is no numeric literal.
\<close>

fun ToNumber :: "jsval \<Rightarrow> jsnum" where
  "ToNumber Undefined = NaN"
| "ToNumber Null = Finite False 0 0"
| "ToNumber (Str s) = StringToNumber s"
| "ToNumber (Num n) = n"
| "ToNumber FileObject = NaN"

definition js_times :: "jsval \<Rightarrow> jsval \<Rightarrow> jsval" where
  "js_times a b = Num (js_mul (ToNumber a) (ToNumber b))"

text \<open>
  A \<^verbatim>\<open>FormData\<close> is a list of entries, each a name with a string or a file;
  \<^verbatim>\<open>formData.get(name)\<close> is the first entry of that name, or \<^verbatim>\<open>null\<close>.
\<close>

datatype FormDataEntryValue = EString string | EFile

type_synonym FormData = "(string \<times> FormDataEntryValue) list"

definition get :: "FormData \<Rightarrow> string \<Rightarrow> jsval" where
  "get formData name =
     (case map_of formData name of
        None \<Rightarrow> Null
      | Some (EString s) \<Rightarrow> Str s
      | Some EFile \<Rightarrow> FileObject)"

section \<open>The form schema\<close>

text \<open>
  The schema library (Zod 3) is not part of the repository; the three schema types the
  actions use are modelled by what they report. \<open>zparse\<close> returns the messages of the
  issues a value raises (none when it is valid) and the parsed value, absent when the
  parse is aborted.

  \<^item> \<^verbatim>\<open>z.string({invalid_type_error})\<close> accepts strings only.
  \<^item> \<^verbatim>\<open>z.coerce.number().gt(v, {message})\<close> first applies \<^verbatim>\<open>Number\<close>; \<^verbatim>\<open>NaN\<close> is an
    invalid type and stops the checks; then a value \<^verbatim>\<open><= v\<close> raises \<^verbatim>\<open>message\<close>.
  \<^item> \<^verbatim>\<open>z.enum(values, {invalid_type_error})\<close> accepts the listed strings only.

  An invalid type reports \<^verbatim>\<open>Required\<close> for \<^verbatim>\<open>undefined\<close>, else \<^verbatim>\<open>invalid_type_error\<close>
  when given, else the library's default text.
\<close>

datatype ZodType =
    ZodString "string option"
  | ZodCoerceNumberGt jsnum string
  | ZodEnum "string list" "string option"

fun getParsedType :: "jsval \<Rightarrow> string" where
  "getParsedType Undefined = ''undefined''"
| "getParsedType Null = ''null''"
| "getParsedType (Str s) = ''string''"
| "getParsedType (Num n) = (if n = NaN then ''nan'' else ''number'')"
| "getParsedType FileObject = ''object''"

definition invalid_type :: "string option \<Rightarrow> string \<Rightarrow> jsval \<Rightarrow> string" where
  "invalid_type invalid_type_error expected v =
     (if v = Undefined then ''Required''
      else case invalid_type_error of
             Some m \<Rightarrow> m
           | None \<Rightarrow> ''Expected '' @ expected @ '', received '' @ getParsedType v)"

definition quoted :: "string \<Rightarrow> string" where
  "quoted s = [CHR 0x27] @ s @ [CHR 0x27]"

fun joinValues :: "string list \<Rightarrow> string" where
  "joinValues [] = []"
| "joinValues [v] = quoted v"
| "joinValues (v # vs) = quoted v @ '' | '' @ joinValues vs"

fun zparse :: "ZodType \<Rightarrow> jsval \<Rightarrow> string list \<times> jsval option" where
  "zparse (ZodString e) v =
     (case v of
        Str s \<Rightarrow> ([], Some v)
      | _ \<Rightarrow> ([invalid_type e ''string'' v], None))"
| "zparse (ZodCoerceNumberGt bound msg) v =
     (let n = ToNumber v
      in if n = NaN then ([''Expected number, received nan''], None)
         else if js_le n bound then ([msg], Some (Num n))
         else ([], Some (Num n)))"
| "zparse (ZodEnum values e) v =
     (case v of
        Str s \<Rightarrow>
          if s \<in> set values then ([], Some v)
          else ([''Invalid enum value. Expected '' @ joinValues values @ '', received ''
                 @ quoted s], None)
      | _ \<Rightarrow> ([invalid_type e (joinValues values) v], None))"

text \<open>
  \<^verbatim>\<open>z.object(shape)\<close> parses every key of its shape, in order, and collects the issues
  of all of them, each under the path of its key; keys outside the shape are dropped.
  \<^verbatim>\<open>safeParse\<close> succeeds when no issue was raised.
\<close>

record ZodIssue =
  issue_path :: "string list"
  issue_message :: string

type_synonym ZodObject = "(string \<times> ZodType) list"

fun parse_shape :: "ZodObject \<Rightarrow> jsobject \<Rightarrow> ZodIssue list \<times> jsobject" where
  "parse_shape [] input = ([], (\<lambda>k. Undefined))"
| "parse_shape ((key, t) # shape) input =
     (let (msgs, value) = zparse t (input key);
          (issues, final) = parse_shape shape input
      in (map (\<lambda>m. \<lparr>issue_path = [key], issue_message = m\<rparr>) msgs @ issues,
          (case value of None \<Rightarrow> final | Some x \<Rightarrow> final(key := x))))"

datatype SafeParseReturnType = SafeParseSuccess jsobject | SafeParseError "ZodIssue list"

definition safeParse :: "ZodObject \<Rightarrow> jsobject \<Rightarrow> SafeParseReturnType" where
  "safeParse schema input =
     (case parse_shape schema input of
        (issues, data) \<Rightarrow> if issues = [] then SafeParseSuccess data else SafeParseError issues)"

definition omit :: "string list \<Rightarrow> ZodObject \<Rightarrow> ZodObject" where
  "omit keys schema = filter (\<lambda>(k, t). k \<notin> set keys) schema"

text \<open>
  \<^verbatim>\<open>error.flatten().fieldErrors\<close>: the messages of the issues, grouped by the first
  element of their path, in the order the issues were raised.
\<close>

definition fieldErrors :: "ZodIssue list \<Rightarrow> (string \<rightharpoonup> string list)" where
  "fieldErrors issues =
     foldl (\<lambda>fe sub.
              case issue_path sub of
                [] \<Rightarrow> fe
              | k # _ \<Rightarrow> fe(k \<mapsto> (case fe k of None \<Rightarrow> [] | Some ms \<Rightarrow> ms) @ [issue_message sub]))
           Map.empty issues"

definition FormSchema :: ZodObject where
  "FormSchema =
     [(''id'', ZodString None),
      (''customerId'', ZodString (Some ''Please select a customer'')),
      (''amount'', ZodCoerceNumberGt (js_nat 0) ''Please enter an amount greater than $0''),
      (''status'', ZodEnum [''pending'', ''paid''] (Some ''Please select an invoice status'')),
      (''date'', ZodString None)]"

definition CreateInvoice :: ZodObject where
  "CreateInvoice = omit [''id'', ''date''] FormSchema"

definition UpdateInvoice :: ZodObject where
  "UpdateInvoice = omit [''id'', ''date''] FormSchema"

section \<open>The invoice actions\<close>

text \<open>
  The table \<^verbatim>\<open>invoices(id, customer_id, amount, status, date)\<close> holds, in each column
  but \<^verbatim>\<open>id\<close>, the value that was bound to the statement's parameter. The two statements
  of \<^verbatim>\<open>createInvoice\<close> and \<^verbatim>\<open>updateInvoice\<close> are
  \<^verbatim>\<open>INSERT INTO invoices (customer_id, amount, status, date) VALUES (...)\<close> and
  \<^verbatim>\<open>UPDATE invoices SET customer_id = .., amount = .., status = .. WHERE id = ..\<close>.
\<close>

record invoice =
  inv_id :: string
  customer_id :: jsval
  amount :: jsval
  status :: jsval
  date :: jsval

datatype statement =
    INSERT_INTO_invoices jsval jsval jsval jsval
  | UPDATE_invoices_SET jsval jsval jsval string

text \<open>
  What the actions do not decide is a parameter: whether the storage rejects a statement
  (then \<^verbatim>\<open>sql\<close> throws), the identifier it gives a new row, and the clock's
  \<^verbatim>\<open>new Date().toISOString()\<close>.
\<close>

record env =
  sql_error :: "statement \<Rightarrow> invoice list \<Rightarrow> string option"
  generated_id :: "invoice list \<Rightarrow> string"
  toISOString :: string

text \<open>
  The effects of an action, in the order they happen: a statement sent to the storage
  (whether or not it is accepted), \<^verbatim>\<open>revalidatePath\<close>, \<^verbatim>\<open>redirect\<close>.
\<close>

datatype effect = Sql statement | RevalidatePath string | Redirect string

record world =
  invoices :: "invoice list"
  effects :: "effect list"

fun execute :: "env \<Rightarrow> statement \<Rightarrow> invoice list \<Rightarrow> invoice list" where
  "execute env (INSERT_INTO_invoices c a s d) rows =
     rows @ [\<lparr>inv_id = generated_id env rows, customer_id = c, amount = a, status = s, date = d\<rparr>]"
| "execute env (UPDATE_invoices_SET c a s i) rows =
     map (\<lambda>r. if inv_id r = i then r\<lparr>customer_id := c, amount := a, status := s\<rparr> else r) rows"

definition sql :: "env \<Rightarrow> statement \<Rightarrow> world \<Rightarrow> string option \<times> world" where
  "sql env q w =
     (case sql_error env q (invoices w) of
        Some e \<Rightarrow> (Some e, w\<lparr>effects := effects w @ [Sql q]\<rparr>)
      | None \<Rightarrow> (None, w\<lparr>invoices := execute env q (invoices w), effects := effects w @ [Sql q]\<rparr>))"

definition revalidatePath :: "string \<Rightarrow> world \<Rightarrow> world" where
  "revalidatePath path w = w\<lparr>effects := effects w @ [RevalidatePath path]\<rparr>"

text \<open>
  The form state an action returns. \<^verbatim>\<open>redirect\<close> does not return: it leaves the action
  by throwing the framework's redirect signal, so an action either returns a state or
  redirects.
\<close>

record State =
  errors :: "(string \<rightharpoonup> string list) option"
  message :: "string option"

datatype completion = Return State | NEXT_REDIRECT string

definition redirect :: "string \<Rightarrow> world \<Rightarrow> completion \<times> world" where
  "redirect path w = (NEXT_REDIRECT path, w\<lparr>effects := effects w @ [Redirect path]\<rparr>)"

definition split_first :: "char \<Rightarrow> string \<Rightarrow> string" where
  "split_first sep s = takeWhile (\<lambda>c. c \<noteq> sep) s"

definition form_fields :: "FormData \<Rightarrow> jsobject" where
  "form_fields formData =
     (\<lambda>k. Undefined)
       (''customerId'' := get formData ''customerId'',
        ''amount'' := get formData ''amount'',
        ''status'' := get formData ''status'')"

definition createInvoice :: "env \<Rightarrow> State \<Rightarrow> FormData \<Rightarrow> world \<Rightarrow> completion \<times> world" where
  "createInvoice env prevState formData w =
     (case safeParse CreateInvoice (form_fields formData) of
        SafeParseError issues \<Rightarrow>
          (Return \<lparr>errors = Some (fieldErrors issues),
                   message = Some ''Missing fields. Failed to create invoice.''\<rparr>, w)
      | SafeParseSuccess data \<Rightarrow>
          (let customerId = data ''customerId'';
               amount = data ''amount'';
               status = data ''status'';
               amountInCents = js_times amount (Num (js_nat 100));
               date = Str (split_first CHR ''T'' (toISOString env))
           in case sql env (INSERT_INTO_invoices customerId amountInCents status date) w of
                (Some error, w') \<Rightarrow>
                  (Return \<lparr>errors = None,
                           message = Some ''Database error: Failed to create invoice.''\<rparr>, w')
              | (None, w') \<Rightarrow>
                  redirect ''/dashboard/invoices'' (revalidatePath ''/dashboard/invoices'' w')))"

definition updateInvoice ::
  "env \<Rightarrow> string \<Rightarrow> State \<Rightarrow> FormData \<Rightarrow> world \<Rightarrow> completion \<times> world" where
  "updateInvoice env id' prevState formData w =
     (case safeParse UpdateInvoice (form_fields formData) of
        SafeParseError issues \<Rightarrow>
          (Return \<lparr>errors = Some (fieldErrors issues),
                   message = Some ''Missing fields or invalid amount. Failed to update invoice.''\<rparr>,
           w)
      | SafeParseSuccess data \<Rightarrow>
          (let customerId = data ''customerId'';
               amount = data ''amount'';
               status = data ''status'';
               amountInCents = js_times amount (Num (js_nat 100))
           in case sql env (UPDATE_invoices_SET customerId amountInCents status id') w of
                (Some error, w') \<Rightarrow>
                  (Return \<lparr>errors = None,
                           message = Some ''Database error: Failed to create invoice.''\<rparr>, w')
              | (None, w') \<Rightarrow>
                  redirect ''/dashboard/invoices'' (revalidatePath ''/dashboard/invoices'' w')))"

section \<open>Authentication\<close>

text \<open>
  \<^verbatim>\<open>signIn\<close> is the authentication collaborator: it resolves, or throws. A thrown value
  is an \<^verbatim>\<open>AuthError\<close> with its \<^verbatim>\<open>type\<close>, or anything else. \<^verbatim>\<open>authenticate\<close> returns a
  message, returns nothing (\<^verbatim>\<open>undefined\<close>), or throws.
\<close>

datatype thrown = AuthError string | OtherError string

datatype auth_completion = AuthReturn "string option" | AuthThrow thrown

definition authenticate ::
  "(string \<Rightarrow> FormData \<Rightarrow> thrown option) \<Rightarrow> string option \<Rightarrow> FormData \<Rightarrow> auth_completion" where
  "authenticate signIn prevState formData =
     (case signIn ''credentials'' formData of
        None \<Rightarrow> AuthReturn None
      | Some error \<Rightarrow>
          (case error of
             AuthError ty \<Rightarrow>
               if ty = ''CredentialsSignin'' then AuthReturn (Some ''Invalid credentials.'')
               else AuthReturn (Some ''Something went wrong.'')
           | OtherError e \<Rightarrow> AuthThrow error))"

section \<open>The search box\<close>

text \<open>
  A \<^verbatim>\<open>URLSearchParams\<close> is a list of name-value pairs. \<^verbatim>\<open>set\<close> overwrites the first pair
  of the name and removes the others, or appends a pair when there is none; \<^verbatim>\<open>delete\<close>
  removes every pair of the name; \<^verbatim>\<open>toString\<close> is the
  \<^verbatim>\<open>application/x-www-form-urlencoded\<close> serialisation.
\<close>

type_synonym URLSearchParams = "(string \<times> string) list"

fun set_first :: "string \<Rightarrow> string \<Rightarrow> URLSearchParams \<Rightarrow> URLSearchParams" where
  "set_first name value [] = []"
| "set_first name value ((k, x) # ps) =
     (if k = name then (k, value) # filter (\<lambda>(k', x'). k' \<noteq> name) ps
      else (k, x) # set_first name value ps)"

definition params_set :: "URLSearchParams \<Rightarrow> string \<Rightarrow> string \<Rightarrow> URLSearchParams" where
  "params_set ps name value =
     (if list_ex (\<lambda>(k, x). k = name) ps then set_first name value ps else ps @ [(name, value)])"

definition params_delete :: "URLSearchParams \<Rightarrow> string \<Rightarrow> URLSearchParams" where
  "params_delete ps name = filter (\<lambda>(k, x). k \<noteq> name) ps"

definition params_getAll :: "URLSearchParams \<Rightarrow> string \<Rightarrow> string list" where
  "params_getAll ps name = map snd (filter (\<lambda>(k, x). k = name) ps)"

definition hex_digit :: "nat \<Rightarrow> char" where
  "hex_digit d = ''0123456789ABCDEF'' ! d"

definition urlencode_byte :: "char \<Rightarrow> string" where
  "urlencode_byte c =
     (let n = of_char c :: nat
      in if n = 32 then ''+''
         else if (48 \<le> n \<and> n \<le> 57) \<or> (65 \<le> n \<and> n \<le> 90) \<or> (97 \<le> n \<and> n \<le> 122)
                 \<or> n = 42 \<or> n = 45 \<or> n = 46 \<or> n = 95 then [c]
         else [CHR ''%'', hex_digit (n div 16), hex_digit (n mod 16)])"

definition urlencode :: "string \<Rightarrow> string" where
  "urlencode s = concat (map urlencode_byte s)"

fun params_toString :: "URLSearchParams \<Rightarrow> string" where
  "params_toString [] = []"
| "params_toString [(k, x)] = urlencode k @ ''='' @ urlencode x"
| "params_toString ((k, x) # ps) = urlencode k @ ''='' @ urlencode x @ ''&'' @ params_toString ps"

text \<open>
  The router's two navigations: \<^verbatim>\<open>replace\<close> overwrites the current (last) history entry,
  \<^verbatim>\<open>push\<close> adds one.
\<close>

datatype navigation = Replace string | Push string

fun navigate :: "navigation \<Rightarrow> string list \<Rightarrow> string list" where
  "navigate (Replace url) history = butlast history @ [url]"
| "navigate (Push url) history = history @ [url]"

text \<open>
  The body of the debounced callback. \<open>search_params\<close> is the parameter set it computes
  (the local \<^verbatim>\<open>params\<close> when \<^verbatim>\<open>replace\<close> is called); a term is falsy when it is the empty
  string.
\<close>

definition search_params :: "URLSearchParams \<Rightarrow> string \<Rightarrow> URLSearchParams" where
  "search_params searchParams term =
     (let params = searchParams;
          params = params_set params ''page'' ''1''
      in if term \<noteq> [] then params_set params ''query'' term else params_delete params ''query'')"

definition handleSearch :: "URLSearchParams \<Rightarrow> string \<Rightarrow> string \<Rightarrow> navigation" where
  "handleSearch searchParams pathname term =
     Replace (pathname @ ''?'' @ params_toString (search_params searchParams term))"

section \<open>Submissions and example data\<close>

text \<open>
  When a field of a submission offends its rule: \<^verbatim>\<open>customerId\<close> is absent or no
  string, \<^verbatim>\<open>amount\<close> does not coerce to a number or coerces to one that is \<^verbatim>\<open><= 0\<close>,
  \<^verbatim>\<open>status\<close> is neither \<^verbatim>\<open>pending\<close> nor \<^verbatim>\<open>paid\<close>.
\<close>

definition customerId_offends :: "FormData \<Rightarrow> bool" where
  "customerId_offends formData =
     (case get formData ''customerId'' of Str s \<Rightarrow> False | _ \<Rightarrow> True)"

definition amount_offends :: "FormData \<Rightarrow> bool" where
  "amount_offends formData =
     (ToNumber (get formData ''amount'') = NaN
      \<or> js_le (ToNumber (get formData ''amount'')) (js_nat 0))"

definition status_offends :: "FormData \<Rightarrow> bool" where
  "status_offends formData =
     (get formData ''status'' \<noteq> Str ''pending'' \<and> get formData ''status'' \<noteq> Str ''paid'')"

definition returned_message :: "completion \<Rightarrow> string option" where
  "returned_message c = (case c of Return st \<Rightarrow> message st | NEXT_REDIRECT path \<Rightarrow> None)"

text \<open>A storage that accepts every statement, one that rejects every statement, a table
  of two invoices, and a form with a customer, an amount and a status.\<close>

definition accepting_env :: env where
  "accepting_env =
     \<lparr>sql_error = (\<lambda>q rows. None), generated_id = (\<lambda>rows. ''inv-3''),
      toISOString = ''2024-05-01T10:20:30.000Z''\<rparr>"

definition rejecting_env :: env where
  "rejecting_env =
     \<lparr>sql_error = (\<lambda>q rows. Some ''connection refused''), generated_id = (\<lambda>rows. ''inv-3''),
      toISOString = ''2024-05-01T10:20:30.000Z''\<rparr>"

definition two_invoices :: world where
  "two_invoices =
     \<lparr>invoices =
        [\<lparr>inv_id = ''inv-1'', customer_id = Str ''c1'', amount = Num (js_nat 500),
          status = Str ''pending'', date = Str ''2024-01-15''\<rparr>,
         \<lparr>inv_id = ''inv-2'', customer_id = Str ''c2'', amount = Num (js_nat 700),
          status = Str ''paid'', date = Str ''2024-02-20''\<rparr>],
      effects = []\<rparr>"

definition no_state :: State where
  "no_state = \<lparr>errors = None, message = None\<rparr>"

definition invoice_form :: "string \<Rightarrow> FormData" where
  "invoice_form text =
     [(''customerId'', EString ''c7''), (''amount'', EString text), (''status'', EString ''paid'')]"

section \<open>Evaluating numbers\<close>

lemma js_nat_0: "js_nat 0 = Finite False 0 0"
  by (simp add: js_nat_def round_ratio_def)

lemma js_nat_100: "js_nat 100 = Finite False 25 2"
  by (simp add: js_nat_def round_ratio_def bit_length.simps norm.simps Let_def)

lemmas parse_defs =
  StringToNumber_def trim_def trim_start.simps StrWhiteSpaceChar_def
  NonDecimalIntegerLiteral_def StrUnsignedDecimalLiteral_def is_digit_def digit_value_def
  digits_value_def all_digits_def SignedInteger_def ExponentPart_def Let_def
lemmas round_defs = round_ratio_def bit_length.simps norm.simps Let_def

lemma Number_12_34: "StringToNumber ''12.34'' = Finite False 3473401212609495 (- 48)"
proof -
  have "StringToNumber ''12.34'' = round_ratio False 1234 100"
    by (simp add: parse_defs)
  also have "\<dots> = Finite False 3473401212609495 (- 48)"
    by (simp add: round_defs)
  finally show ?thesis .
qed

lemma Number_1234: "StringToNumber ''1234'' = Finite False 617 1"
proof -
  have "StringToNumber ''1234'' = round_ratio False 1234 1"
    by (simp add: parse_defs)
  also have "\<dots> = Finite False 617 1"
    by (simp add: round_defs)
  finally show ?thesis .
qed

lemma cents_12_34: "js_mul (StringToNumber ''12.34'') (js_nat 100) = Finite False 617 1"
  unfolding Number_12_34 js_nat_100 by (simp add: round_defs)

lemma Number_110: "StringToNumber ''110'' = Finite False 55 1"
proof -
  have "StringToNumber ''110'' = round_ratio False 110 1"
    by (simp add: parse_defs)
  also have "\<dots> = Finite False 55 1"
    by (simp add: round_defs)
  finally show ?thesis .
qed

lemma Number_110_00000000000001:
  "StringToNumber ''110.00000000000001'' = Finite False 7740561859543041 (- 46)"
proof -
  have "StringToNumber ''110.00000000000001''
          = round_ratio False 11000000000000001 100000000000000"
    by (simp add: parse_defs)
  also have "\<dots> = Finite False 7740561859543041 (- 46)"
    by (simp add: round_defs)
  finally show ?thesis .
qed

lemma Number_1_10: "StringToNumber ''1.10'' = Finite False 2476979795053773 (- 51)"
proof -
  have "StringToNumber ''1.10'' = round_ratio False 110 100"
    by (simp add: parse_defs)
  also have "\<dots> = Finite False 2476979795053773 (- 51)"
    by (simp add: round_defs)
  finally show ?thesis .
qed

lemma cents_1_10:
  "js_mul (StringToNumber ''1.10'') (js_nat 100) = Finite False 7740561859543041 (- 46)"
  unfolding Number_1_10 js_nat_100 by (simp add: round_defs)

text \<open>The double nearest to \<open>0.1\<close>, and a tie that rounds to the even significand:
  \<open>2 ^ 53 + 1\<close> is \<open>2 ^ 53\<close>, while \<open>2 ^ 53 + 3\<close> is \<open>2 ^ 53 + 4\<close>.\<close>

lemma round_one_tenth: "round_ratio False 1 10 = Finite False 3602879701896397 (- 55)"
  by (simp add: round_defs)

lemma round_ties_to_even:
  "round_ratio False 9007199254740993 1 = Finite False 1 53"
  "round_ratio False 9007199254740995 1 = Finite False 2251799813685249 2"
  by (simp_all add: round_defs)

lemma Number_0: "StringToNumber ''0'' = Finite False 0 0"
proof -
  have "StringToNumber ''0'' = round_ratio False 0 1"
    by (simp add: parse_defs)
  then show ?thesis
    by (simp add: round_ratio_def)
qed

section \<open>The schema on a form\<close>

lemma get_defined: "get formData name \<noteq> Undefined"
  by (simp add: get_def split: option.split FormDataEntryValue.split)

lemma CreateInvoice_shape:
  "CreateInvoice =
     [(''customerId'', ZodString (Some ''Please select a customer'')),
      (''amount'', ZodCoerceNumberGt (js_nat 0) ''Please enter an amount greater than $0''),
      (''status'', ZodEnum [''pending'', ''paid''] (Some ''Please select an invoice status''))]"
  by (simp add: CreateInvoice_def omit_def FormSchema_def)

lemma UpdateInvoice_shape: "UpdateInvoice = CreateInvoice"
  by (simp add: CreateInvoice_def UpdateInvoice_def)

lemma fieldErrors_step:
  "foldl (\<lambda>fe sub. case issue_path sub of [] \<Rightarrow> fe
            | k # _ \<Rightarrow> fe(k \<mapsto> (case fe k of None \<Rightarrow> [] | Some ms \<Rightarrow> ms) @ [issue_message sub]))
         fe (map (\<lambda>m. \<lparr>issue_path = [key], issue_message = m\<rparr>) msgs) =
   (if msgs = [] then fe else fe(key \<mapsto> (case fe key of None \<Rightarrow> [] | Some ms \<Rightarrow> ms) @ msgs))"
  by (induction msgs arbitrary: fe) (auto simp: fun_upd_def)

lemma parse_fields:
  "fst (parse_shape CreateInvoice input) =
     map (\<lambda>m. \<lparr>issue_path = [''customerId''], issue_message = m\<rparr>)
        (fst (zparse (ZodString (Some ''Please select a customer'')) (input ''customerId''))) @
      map (\<lambda>m. \<lparr>issue_path = [''amount''], issue_message = m\<rparr>)
        (fst (zparse (ZodCoerceNumberGt (js_nat 0) ''Please enter an amount greater than $0'') (input ''amount''))) @
      map (\<lambda>m. \<lparr>issue_path = [''status''], issue_message = m\<rparr>)
        (fst (zparse (ZodEnum [''pending'', ''paid''] (Some ''Please select an invoice status'')) (input ''status'')))"
  unfolding CreateInvoice_shape by (simp add: split_beta Let_def)


lemma form_fields_simps:
  "form_fields fd ''customerId'' = get fd ''customerId''"
  "form_fields fd ''amount'' = get fd ''amount''"
  "form_fields fd ''status'' = get fd ''status''"
  by (simp_all add: form_fields_def)

lemma customer_messages:
  "fst (zparse (ZodString (Some ''Please select a customer'')) (get fd ''customerId'')) =
     (if customerId_offends fd then [''Please select a customer''] else [])"
  using get_defined [of fd "''customerId''"]
  by (auto simp: customerId_offends_def invalid_type_def split: jsval.splits)

lemma amount_messages:
  "fst (zparse (ZodCoerceNumberGt (js_nat 0) ''Please enter an amount greater than $0'') v) =
     (if ToNumber v = NaN then [''Expected number, received nan'']
      else if js_le (ToNumber v) (js_nat 0) then [''Please enter an amount greater than $0'']
      else [])"
  by (simp add: Let_def)

lemma status_messages:
  "fst (zparse (ZodEnum [''pending'', ''paid''] (Some ''Please select an invoice status'')) (get fd ''status'')) =
     (if status_offends fd
      then (case get fd ''status'' of
              Str s \<Rightarrow> [''Invalid enum value. Expected '' @ joinValues [''pending'', ''paid''] @ '', received '' @ quoted s]
            | _ \<Rightarrow> [''Please select an invoice status''])
      else [])"
  using get_defined [of fd "''status''"]
  by (auto simp: status_offends_def invalid_type_def split: jsval.splits)

lemma form_issues:
  "fst (parse_shape CreateInvoice (form_fields fd)) = [] \<longleftrightarrow>
     \<not> customerId_offends fd \<and> \<not> amount_offends fd \<and> \<not> status_offends fd"
  unfolding parse_fields form_fields_simps customer_messages amount_messages status_messages
  by (auto simp: amount_offends_def split: jsval.splits)

lemma form_fieldErrors:
  "fieldErrors (fst (parse_shape CreateInvoice (form_fields fd))) =
     (\<lambda>k. if k = ''customerId'' \<and> customerId_offends fd then Some [''Please select a customer'']
          else if k = ''amount'' \<and> ToNumber (get fd ''amount'') = NaN then Some [''Expected number, received nan'']
          else if k = ''amount'' \<and> js_le (ToNumber (get fd ''amount'')) (js_nat 0) then Some [''Please enter an amount greater than $0'']
          else if k = ''status'' \<and> status_offends fd
            then Some (case get fd ''status'' of
              Str s \<Rightarrow> [''Invalid enum value. Expected '' @ joinValues [''pending'', ''paid''] @ '', received '' @ quoted s]
            | _ \<Rightarrow> [''Please select an invoice status''])
          else None)"
  unfolding parse_fields form_fields_simps customer_messages amount_messages status_messages
    fieldErrors_def foldl_append fieldErrors_step
  by (rule ext) (simp split: jsval.splits)

lemma form_data:
  assumes "\<not> customerId_offends fd" "\<not> amount_offends fd" "\<not> status_offends fd"
  shows "snd (parse_shape CreateInvoice (form_fields fd)) ''customerId'' = get fd ''customerId''"
    and "snd (parse_shape CreateInvoice (form_fields fd)) ''amount'' = Num (ToNumber (get fd ''amount''))"
    and "snd (parse_shape CreateInvoice (form_fields fd)) ''status'' = get fd ''status''"
  using assms unfolding CreateInvoice_shape
  by (auto simp: split_beta Let_def form_fields_simps customerId_offends_def amount_offends_def
        status_offends_def split: jsval.splits)

lemma safeParse_form:
  "safeParse CreateInvoice (form_fields fd) =
     (if customerId_offends fd \<or> amount_offends fd \<or> status_offends fd
      then SafeParseError (fst (parse_shape CreateInvoice (form_fields fd)))
      else SafeParseSuccess (snd (parse_shape CreateInvoice (form_fields fd))))"
  using form_issues [of fd] by (auto simp: safeParse_def split: prod.splits)

lemma createInvoice_invalid:
  assumes "customerId_offends fd \<or> amount_offends fd \<or> status_offends fd"
  shows "createInvoice env prevState fd w =
           (Return \<lparr>errors = Some (fieldErrors (fst (parse_shape CreateInvoice (form_fields fd)))),
                    message = Some ''Missing fields. Failed to create invoice.''\<rparr>, w)"
  using assms by (simp add: createInvoice_def safeParse_form)

lemma updateInvoice_invalid:
  assumes "customerId_offends fd \<or> amount_offends fd \<or> status_offends fd"
  shows "updateInvoice env id' prevState fd w =
           (Return \<lparr>errors = Some (fieldErrors (fst (parse_shape CreateInvoice (form_fields fd)))),
                    message = Some ''Missing fields or invalid amount. Failed to update invoice.''\<rparr>, w)"
  using assms by (simp add: updateInvoice_def UpdateInvoice_shape safeParse_form)

lemma createInvoice_valid:
  assumes "\<not> customerId_offends fd" "\<not> amount_offends fd" "\<not> status_offends fd"
    and "q = INSERT_INTO_invoices (get fd ''customerId'')
               (Num (js_mul (ToNumber (get fd ''amount'')) (js_nat 100))) (get fd ''status'')
               (Str (split_first CHR ''T'' (toISOString env)))"
  shows "createInvoice env prevState fd w =
           (case sql_error env q (invoices w) of
              Some e \<Rightarrow>
                (Return \<lparr>errors = None, message = Some ''Database error: Failed to create invoice.''\<rparr>,
                 w\<lparr>effects := effects w @ [Sql q]\<rparr>)
            | None \<Rightarrow>
                (NEXT_REDIRECT ''/dashboard/invoices'',
                 w\<lparr>invoices := execute env q (invoices w),
                   effects := effects w @ [Sql q, RevalidatePath ''/dashboard/invoices'',
                                           Redirect ''/dashboard/invoices'']\<rparr>))"
  using assms
  by (simp add: createInvoice_def safeParse_form form_data js_times_def sql_def redirect_def Let_def
        revalidatePath_def split: option.split)

lemma updateInvoice_valid:
  assumes "\<not> customerId_offends fd" "\<not> amount_offends fd" "\<not> status_offends fd"
    and "q = UPDATE_invoices_SET (get fd ''customerId'')
               (Num (js_mul (ToNumber (get fd ''amount'')) (js_nat 100))) (get fd ''status'') id'"
  shows "updateInvoice env id' prevState fd w =
           (case sql_error env q (invoices w) of
              Some e \<Rightarrow>
                (Return \<lparr>errors = None, message = Some ''Database error: Failed to create invoice.''\<rparr>,
                 w\<lparr>effects := effects w @ [Sql q]\<rparr>)
            | None \<Rightarrow>
                (NEXT_REDIRECT ''/dashboard/invoices'',
                 w\<lparr>invoices := execute env q (invoices w),
                   effects := effects w @ [Sql q, RevalidatePath ''/dashboard/invoices'',
                                           Redirect ''/dashboard/invoices'']\<rparr>))"
  using assms
  by (simp add: updateInvoice_def UpdateInvoice_shape safeParse_form form_data js_times_def sql_def Let_def
        redirect_def revalidatePath_def split: option.split)

lemma get_invoice_form:
  "get (invoice_form text) ''customerId'' = Str ''c7''"
  "get (invoice_form text) ''amount'' = Str text"
  "get (invoice_form text) ''status'' = Str ''paid''"
  by (simp_all add: get_def invoice_form_def)

lemma get_empty_form: "get [] name = Null"
  by (simp add: get_def)

lemma invoice_form_fields_valid:
  "\<not> customerId_offends (invoice_form text)" "\<not> status_offends (invoice_form text)"
  by (simp_all add: customerId_offends_def status_offends_def get_invoice_form)

lemma empty_form_offends:
  "customerId_offends []" "amount_offends []" "status_offends []"
  by (simp_all add: customerId_offends_def amount_offends_def status_offends_def get_empty_form
        js_nat_0 signed_def)

lemma amount_12_34_valid: "\<not> amount_offends (invoice_form ''12.34'')"
  by (simp add: amount_offends_def get_invoice_form Number_12_34 js_nat_0 signed_def)

lemma amount_1_10_valid: "\<not> amount_offends (invoice_form ''1.10'')"
  by (simp add: amount_offends_def get_invoice_form Number_1_10 js_nat_0 signed_def)

lemma js_le_not_NaN: "js_le n b \<Longrightarrow> n \<noteq> NaN"
  by (cases n) auto

lemma execute_update_matched:
  assumes "r \<in> set (execute env (UPDATE_invoices_SET c a s i) rows)" "inv_id r = i"
  shows "customer_id r = c \<and> amount r = a \<and> status r = s"
proof -
  from assms(1) obtain r0 where "r0 \<in> set rows"
    and r: "r = (if inv_id r0 = i then r0\<lparr>customer_id := c, amount := a, status := s\<rparr> else r0)"
    by auto
  with assms(2) show ?thesis
    by (cases "inv_id r0 = i") simp_all
qed

lemma execute_update_frame:
  "map inv_id (execute env (UPDATE_invoices_SET c a s i) rows) = map inv_id rows"
  "map date (execute env (UPDATE_invoices_SET c a s i) rows) = map date rows"
  "n < length rows \<Longrightarrow> execute env (UPDATE_invoices_SET c a s i) rows ! n =
     (if inv_id (rows ! n) = i then (rows ! n)\<lparr>customer_id := c, amount := a, status := s\<rparr>
      else rows ! n)"
proof -
  let ?f = "\<lambda>r. if inv_id r = i then r\<lparr>customer_id := c, amount := a, status := s\<rparr> else r"
  have "inv_id (?f r) = inv_id r" and "date (?f r) = date r" for r
    by simp_all
  then show "map inv_id (execute env (UPDATE_invoices_SET c a s i) rows) = map inv_id rows"
    and "map date (execute env (UPDATE_invoices_SET c a s i) rows) = map date rows"
    by (simp_all add: comp_def)
  show "n < length rows \<Longrightarrow> execute env (UPDATE_invoices_SET c a s i) rows ! n =
     (if inv_id (rows ! n) = i then (rows ! n)\<lparr>customer_id := c, amount := a, status := s\<rparr>
      else rows ! n)"
    by simp
qed

section \<open>Example submissions\<close>

lemma create_12_34:
  "createInvoice accepting_env no_state (invoice_form ''12.34'') two_invoices =
     (NEXT_REDIRECT ''/dashboard/invoices'',
      \<lparr>invoices = invoices two_invoices @
          [\<lparr>inv_id = ''inv-3'', customer_id = Str ''c7'', amount = Num (Finite False 617 1),
            status = Str ''paid'', date = Str ''2024-05-01''\<rparr>],
       effects =
          [Sql (INSERT_INTO_invoices (Str ''c7'') (Num (Finite False 617 1)) (Str ''paid'')
                  (Str ''2024-05-01'')),
           RevalidatePath ''/dashboard/invoices'', Redirect ''/dashboard/invoices'']\<rparr>)"
  by (simp add: createInvoice_valid [OF invoice_form_fields_valid(1) amount_12_34_valid
                  invoice_form_fields_valid(2) refl]
        accepting_env_def get_invoice_form cents_12_34 split_first_def
        two_invoices_def)

lemma create_12_34_rejected:
  "createInvoice rejecting_env no_state (invoice_form ''12.34'') two_invoices =
     (Return \<lparr>errors = None, message = Some ''Database error: Failed to create invoice.''\<rparr>,
      \<lparr>invoices = invoices two_invoices,
       effects =
          [Sql (INSERT_INTO_invoices (Str ''c7'') (Num (Finite False 617 1)) (Str ''paid'')
                  (Str ''2024-05-01''))]\<rparr>)"
  by (simp add: createInvoice_valid [OF invoice_form_fields_valid(1) amount_12_34_valid
                  invoice_form_fields_valid(2) refl]
        rejecting_env_def get_invoice_form cents_12_34 split_first_def
        two_invoices_def)

lemma amounts_two_invoices:
  "map amount (invoices two_invoices) = [Num (js_nat 500), Num (js_nat 700)]"
  by (simp add: two_invoices_def)

lemma update_12_34:
  "updateInvoice accepting_env ''inv-1'' no_state (invoice_form ''12.34'') two_invoices =
     (NEXT_REDIRECT ''/dashboard/invoices'',
      \<lparr>invoices =
          [\<lparr>inv_id = ''inv-1'', customer_id = Str ''c7'', amount = Num (Finite False 617 1),
            status = Str ''paid'', date = Str ''2024-01-15''\<rparr>,
           \<lparr>inv_id = ''inv-2'', customer_id = Str ''c2'', amount = Num (js_nat 700),
            status = Str ''paid'', date = Str ''2024-02-20''\<rparr>],
       effects =
          [Sql (UPDATE_invoices_SET (Str ''c7'') (Num (Finite False 617 1)) (Str ''paid'') ''inv-1''),
           RevalidatePath ''/dashboard/invoices'', Redirect ''/dashboard/invoices'']\<rparr>)"
  by (simp add: updateInvoice_valid [OF invoice_form_fields_valid(1) amount_12_34_valid
                  invoice_form_fields_valid(2) refl]
        accepting_env_def get_invoice_form cents_12_34 two_invoices_def)

section \<open>Parameter lists\<close>

lemma filter_set_first:
  "\<not> Q name \<Longrightarrow> filter (\<lambda>(k, x). Q k) (set_first name v ps) = filter (\<lambda>(k, x). Q k) ps"
proof (induction ps)
  case Nil
  then show ?case by simp
next
  case (Cons p ps)
  obtain k x where p: "p = (k, x)"
    by (cases p)
  have "filter (\<lambda>(k, x). Q k) (filter (\<lambda>(k', x'). k' \<noteq> name) ps) = filter (\<lambda>(k, x). Q k) ps"
    using Cons.prems by (induction ps) auto
  with Cons p show ?case
    by auto
qed

lemma filter_params_set:
  "\<not> Q name \<Longrightarrow> filter (\<lambda>(k, x). Q k) (params_set ps name v) = filter (\<lambda>(k, x). Q k) ps"
  by (simp add: params_set_def filter_set_first)

lemma filter_params_delete:
  "\<not> Q name \<Longrightarrow> filter (\<lambda>(k, x). Q k) (params_delete ps name) = filter (\<lambda>(k, x). Q k) ps"
  unfolding params_delete_def by (induction ps) auto

lemma getAll_set_first:
  "list_ex (\<lambda>(k, x). k = name) ps \<Longrightarrow> params_getAll (set_first name v ps) name = [v]"
proof (induction ps)
  case Nil
  then show ?case by simp
next
  case (Cons p ps)
  obtain k x where p: "p = (k, x)"
    by (cases p)
  have "filter (\<lambda>(k, x). k = name) (filter (\<lambda>(k', x'). k' \<noteq> name) ps) = []"
    by (induction ps) auto
  with Cons p show ?case
    by (auto simp: params_getAll_def)
qed

lemma getAll_params_set: "params_getAll (params_set ps name v) name = [v]"
proof (cases "list_ex (\<lambda>(k, x). k = name) ps")
  case True
  then show ?thesis
    by (simp add: params_set_def getAll_set_first)
next
  case False
  then have "filter (\<lambda>(k, x). k = name) ps = []"
    by (induction ps) auto
  with False show ?thesis
    by (simp add: params_set_def params_getAll_def)
qed

lemma getAll_params_set_other:
  "k \<noteq> name \<Longrightarrow> params_getAll (params_set ps name v) k = params_getAll ps k"
  using filter_params_set [of "\<lambda>k'. k' = k" name ps v] by (simp add: params_getAll_def)

lemma getAll_params_delete_other:
  "k \<noteq> name \<Longrightarrow> params_getAll (params_delete ps name) k = params_getAll ps k"
  using filter_params_delete [of "\<lambda>k'. k' = k" name ps] by (simp add: params_getAll_def)

lemma names_params_delete: "name \<notin> fst ` set (params_delete ps name)"
  by (auto simp: params_delete_def)

lemma search_lee:
  "params_toString (search_params [(''page'', ''5''), (''sort'', ''asc'')] ''lee'')
     = ''page=1&sort=asc&query=lee''"
  by (simp add: search_params_def params_set_def urlencode_def urlencode_byte_def)

lemma search_cleared:
  "params_toString (search_params [(''query'', ''lee''), (''page'', ''5'')] [])
     = ''page=1''"
  by (simp add: search_params_def params_set_def params_delete_def urlencode_def
        urlencode_byte_def)

lemma search_others:
  "params_toString
     (search_params [(''sort'', ''asc''), (''page'', ''5''), (''tag'', ''a b''), (''query'', ''old'')]
        ''lee'')
     = ''sort=asc&page=1&tag=a+b&query=lee''"
  by (simp add: search_params_def params_set_def urlencode_def urlencode_byte_def)

section \<open>Validation\<close>

text \<open>
  Claim C1. A create or update submission in which at least one of \<^verbatim>\<open>customerId\<close>,
  \<^verbatim>\<open>amount\<close>, \<^verbatim>\<open>status\<close> offends its rule returns a state, leaves the storage and the
  effects untouched, and its map of field errors has an entry for every offending field
  at once (and for no other field).
\<close>

theorem invalid_submission_reports_every_offending_field:
  assumes "customerId_offends fd \<or> amount_offends fd \<or> status_offends fd"
  shows "\<exists>errs msg msg'.
           createInvoice env prevState fd w = (Return \<lparr>errors = Some errs, message = msg\<rparr>, w) \<and>
           updateInvoice env id' prevState fd w = (Return \<lparr>errors = Some errs, message = msg'\<rparr>, w) \<and>
           (''customerId'' \<in> dom errs) = customerId_offends fd \<and>
           (''amount'' \<in> dom errs) = amount_offends fd \<and>
           (''status'' \<in> dom errs) = status_offends fd"
proof -
  let ?errs = "fieldErrors (fst (parse_shape CreateInvoice (form_fields fd)))"
  have "(''customerId'' \<in> dom ?errs) = customerId_offends fd"
    by (simp add: form_fieldErrors dom_def)
  moreover have "(''amount'' \<in> dom ?errs) = amount_offends fd"
    by (simp add: form_fieldErrors dom_def amount_offends_def)
  moreover have "(''status'' \<in> dom ?errs) = status_offends fd"
    by (simp add: form_fieldErrors dom_def)
  ultimately show ?thesis
    using createInvoice_invalid [OF assms] updateInvoice_invalid [OF assms] by blast
qed

theorem invalid_submission_reports_every_offending_field_witness:
  "customerId_offends [] \<and> amount_offends [] \<and> status_offends [] \<and>
   (\<exists>errs msg msg'.
      createInvoice accepting_env no_state [] two_invoices
        = (Return \<lparr>errors = Some errs, message = msg\<rparr>, two_invoices) \<and>
      updateInvoice accepting_env ''inv-1'' no_state [] two_invoices
        = (Return \<lparr>errors = Some errs, message = msg'\<rparr>, two_invoices) \<and>
      ''customerId'' \<in> dom errs \<and> ''amount'' \<in> dom errs \<and> ''status'' \<in> dom errs)"
  using invalid_submission_reports_every_offending_field
          [where fd = "[]" and env = accepting_env and prevState = no_state and w = two_invoices
             and id' = "''inv-1''"]
  by (simp add: empty_form_offends)

text \<open>
  Claim C4. A create or update submission whose amount coerces to a number \<^verbatim>\<open><= 0\<close> is
  rejected whatever the other fields hold, and the errors of the \<^verbatim>\<open>amount\<close> field are the
  message \<^verbatim>\<open>Please enter an amount greater than $0\<close>.
\<close>

theorem nonpositive_amount_rejected:
  assumes "js_le (ToNumber (get fd ''amount'')) (js_nat 0)"
  shows "\<exists>errs msg msg'.
           createInvoice env prevState fd w = (Return \<lparr>errors = Some errs, message = msg\<rparr>, w) \<and>
           updateInvoice env id' prevState fd w = (Return \<lparr>errors = Some errs, message = msg'\<rparr>, w) \<and>
           errs ''amount'' = Some [''Please enter an amount greater than $0'']"
proof -
  have bad: "customerId_offends fd \<or> amount_offends fd \<or> status_offends fd"
    using assms by (simp add: amount_offends_def)
  have "fieldErrors (fst (parse_shape CreateInvoice (form_fields fd))) ''amount''
          = Some [''Please enter an amount greater than $0'']"
    using assms js_le_not_NaN [OF assms] by (simp add: form_fieldErrors)
  then show ?thesis
    using createInvoice_invalid [OF bad] updateInvoice_invalid [OF bad] by blast
qed

theorem nonpositive_amount_rejected_witness:
  "js_le (ToNumber (get (invoice_form ''0'') ''amount'')) (js_nat 0) \<and>
   \<not> customerId_offends (invoice_form ''0'') \<and> \<not> status_offends (invoice_form ''0'') \<and>
   (\<exists>errs msg msg'.
      createInvoice accepting_env no_state (invoice_form ''0'') two_invoices
        = (Return \<lparr>errors = Some errs, message = msg\<rparr>, two_invoices) \<and>
      updateInvoice accepting_env ''inv-1'' no_state (invoice_form ''0'') two_invoices
        = (Return \<lparr>errors = Some errs, message = msg'\<rparr>, two_invoices) \<and>
      errs ''amount'' = Some [''Please enter an amount greater than $0''])"
proof -
  have le: "js_le (ToNumber (get (invoice_form ''0'') ''amount'')) (js_nat 0)"
    by (simp add: get_invoice_form Number_0 js_nat_0 signed_def)
  show ?thesis
    using le nonpositive_amount_rejected
              [OF le, where env = accepting_env and prevState = no_state and w = two_invoices
                 and id' = "''inv-1''"]
      invoice_form_fields_valid [of "''0''"]
    by blast
qed

text \<open>
  Claim C8, as the code has it. On a validation failure the message of the returned
  state is \<^verbatim>\<open>Missing fields. Failed to create invoice.\<close> for create and
  \<^verbatim>\<open>Missing fields or invalid amount. Failed to update invoice.\<close> for update.
\<close>

theorem validation_failure_messages:
  assumes "customerId_offends fd \<or> amount_offends fd \<or> status_offends fd"
  shows "returned_message (fst (createInvoice env prevState fd w))
           = Some ''Missing fields. Failed to create invoice.'' \<and>
         returned_message (fst (updateInvoice env id' prevState fd w))
           = Some ''Missing fields or invalid amount. Failed to update invoice.''"
  by (simp add: createInvoice_invalid [OF assms] updateInvoice_invalid [OF assms]
        returned_message_def)

theorem validation_failure_messages_witness:
  "(customerId_offends [] \<or> amount_offends [] \<or> status_offends []) \<and>
   returned_message (fst (createInvoice accepting_env no_state [] two_invoices))
     = Some ''Missing fields. Failed to create invoice.'' \<and>
   returned_message (fst (updateInvoice accepting_env ''inv-1'' no_state [] two_invoices))
     = Some ''Missing fields or invalid amount. Failed to update invoice.''"
  using validation_failure_messages
          [where fd = "[]" and env = accepting_env and prevState = no_state and w = two_invoices
             and id' = "''inv-1''"]
  by (simp add: empty_form_offends)

text \<open>
  The update message is not \<^verbatim>\<open>Missing fields. Failed to update invoice.\<close>: the empty
  form is an invalid update submission, and its message is another text.
\<close>

theorem update_validation_message_counterexample:
  "returned_message (fst (updateInvoice accepting_env ''inv-1'' no_state [] two_invoices))
     \<noteq> Some ''Missing fields. Failed to update invoice.''"
  by (simp add: updateInvoice_invalid empty_form_offends returned_message_def)

section \<open>Persistence failures\<close>

text \<open>
  Claim C9. When the storage rejects the statement of a valid update submission, the
  returned state carries the message \<^verbatim>\<open>Database error: Failed to create invoice.\<close>, the
  very state a create returns when the storage rejects its statement.
\<close>

theorem update_persistence_failure_message:
  assumes "\<not> customerId_offends fd" "\<not> amount_offends fd" "\<not> status_offends fd"
    and "sql_error env
           (UPDATE_invoices_SET (get fd ''customerId'')
              (Num (js_mul (ToNumber (get fd ''amount'')) (js_nat 100))) (get fd ''status'') id')
           (invoices w) = Some e"
  shows "fst (updateInvoice env id' prevState fd w)
           = Return \<lparr>errors = None, message = Some ''Database error: Failed to create invoice.''\<rparr> \<and>
         (\<forall>e'. sql_error env
                 (INSERT_INTO_invoices (get fd ''customerId'')
                    (Num (js_mul (ToNumber (get fd ''amount'')) (js_nat 100))) (get fd ''status'')
                    (Str (split_first CHR ''T'' (toISOString env))))
                 (invoices w) = Some e'
               \<longrightarrow> fst (createInvoice env prevState fd w) = fst (updateInvoice env id' prevState fd w))"
  using assms
  by (simp add: updateInvoice_valid [OF assms(1-3) refl] createInvoice_valid [OF assms(1-3) refl])

theorem update_persistence_failure_message_witness:
  "\<not> customerId_offends (invoice_form ''12.34'') \<and> \<not> amount_offends (invoice_form ''12.34'') \<and>
   \<not> status_offends (invoice_form ''12.34'') \<and>
   fst (updateInvoice rejecting_env ''inv-1'' no_state (invoice_form ''12.34'') two_invoices)
     = Return \<lparr>errors = None, message = Some ''Database error: Failed to create invoice.''\<rparr> \<and>
   fst (createInvoice rejecting_env no_state (invoice_form ''12.34'') two_invoices)
     = fst (updateInvoice rejecting_env ''inv-1'' no_state (invoice_form ''12.34'') two_invoices)"
proof -
  have rej: "sql_error rejecting_env q rows = Some ''connection refused''" for q rows
    by (simp add: rejecting_env_def)
  show ?thesis
    using update_persistence_failure_message
            [OF invoice_form_fields_valid(1) amount_12_34_valid invoice_form_fields_valid(2) rej,
             where id' = "''inv-1''" and w = two_invoices and prevState = no_state]
      invoice_form_fields_valid [of "''12.34''"] amount_12_34_valid rej
    by simp
qed

section \<open>The order of effects\<close>

text \<open>
  Claim C2. Every execution of \<^verbatim>\<open>createInvoice\<close> is of one of three kinds. The storage
  accepts the insert: the effects are the insert, then one \<^verbatim>\<open>revalidatePath\<close> of the
  invoice list, then the redirect to it, in that order, and the table has one row more.
  The storage rejects the insert: the action returns the message
  \<^verbatim>\<open>Database error: Failed to create invoice.\<close>, the only effect is the rejected
  statement, with no invalidation and no navigation, and the table is unchanged. The
  submission is invalid: the action returns and nothing happens at all.
\<close>

theorem create_effects_in_order:
  assumes "createInvoice env prevState fd w = (r, w')"
  shows "(\<exists>c a s d.
            sql_error env (INSERT_INTO_invoices c a s d) (invoices w) = None \<and>
            r = NEXT_REDIRECT ''/dashboard/invoices'' \<and>
            effects w' = effects w @ [Sql (INSERT_INTO_invoices c a s d),
                                      RevalidatePath ''/dashboard/invoices'',
                                      Redirect ''/dashboard/invoices''] \<and>
            invoices w' = invoices w @ [\<lparr>inv_id = generated_id env (invoices w), customer_id = c,
                                         amount = a, status = s, date = d\<rparr>])
       \<or> (\<exists>c a s d e.
            sql_error env (INSERT_INTO_invoices c a s d) (invoices w) = Some e \<and>
            r = Return \<lparr>errors = None, message = Some ''Database error: Failed to create invoice.''\<rparr> \<and>
            effects w' = effects w @ [Sql (INSERT_INTO_invoices c a s d)] \<and>
            invoices w' = invoices w)
       \<or> ((customerId_offends fd \<or> amount_offends fd \<or> status_offends fd) \<and>
           (\<exists>st. r = Return st) \<and> w' = w)"
proof (cases "customerId_offends fd \<or> amount_offends fd \<or> status_offends fd")
  case True
  then show ?thesis
    using assms by (auto simp: createInvoice_invalid)
next
  case False
  let ?q = "INSERT_INTO_invoices (get fd ''customerId'')
              (Num (js_mul (ToNumber (get fd ''amount'')) (js_nat 100))) (get fd ''status'')
              (Str (split_first CHR ''T'' (toISOString env)))"
  from False have valid: "\<not> customerId_offends fd" "\<not> amount_offends fd" "\<not> status_offends fd"
    by simp_all
  note run = createInvoice_valid [OF valid refl, of env prevState w]
  show ?thesis
  proof (cases "sql_error env ?q (invoices w)")
    case None
    with run assms have "r = NEXT_REDIRECT ''/dashboard/invoices''"
      and "w' = w\<lparr>invoices := execute env ?q (invoices w),
                   effects := effects w @ [Sql ?q, RevalidatePath ''/dashboard/invoices'',
                                           Redirect ''/dashboard/invoices'']\<rparr>"
      by simp_all
    with None show ?thesis
      by auto
  next
    case (Some e)
    with run assms
    have "r = Return \<lparr>errors = None, message = Some ''Database error: Failed to create invoice.''\<rparr>"
      and "w' = w\<lparr>effects := effects w @ [Sql ?q]\<rparr>"
      by simp_all
    with Some show ?thesis
      by auto
  qed
qed

theorem create_effects_in_order_witness:
  "createInvoice accepting_env no_state (invoice_form ''12.34'') two_invoices
     = (NEXT_REDIRECT ''/dashboard/invoices'',
        snd (createInvoice accepting_env no_state (invoice_form ''12.34'') two_invoices)) \<and>
   effects (snd (createInvoice accepting_env no_state (invoice_form ''12.34'') two_invoices))
     = [Sql (INSERT_INTO_invoices (Str ''c7'') (Num (Finite False 617 1)) (Str ''paid'')
               (Str ''2024-05-01'')),
        RevalidatePath ''/dashboard/invoices'', Redirect ''/dashboard/invoices''] \<and>
   (\<exists>c a s d.
      sql_error accepting_env (INSERT_INTO_invoices c a s d) (invoices two_invoices) = None \<and>
      effects (snd (createInvoice accepting_env no_state (invoice_form ''12.34'') two_invoices))
        = effects two_invoices @ [Sql (INSERT_INTO_invoices c a s d),
                                  RevalidatePath ''/dashboard/invoices'',
                                  Redirect ''/dashboard/invoices''])"
proof -
  let ?run = "createInvoice accepting_env no_state (invoice_form ''12.34'') two_invoices"
  have run: "?run = (NEXT_REDIRECT ''/dashboard/invoices'', snd ?run)"
    by (simp add: create_12_34)
  have "\<not> (customerId_offends (invoice_form ''12.34'') \<or> amount_offends (invoice_form ''12.34'')
            \<or> status_offends (invoice_form ''12.34''))"
    by (simp add: invoice_form_fields_valid amount_12_34_valid)
  with create_effects_in_order [OF run]
  have "\<exists>c a s d.
      sql_error accepting_env (INSERT_INTO_invoices c a s d) (invoices two_invoices) = None \<and>
      effects (snd ?run)
        = effects two_invoices @ [Sql (INSERT_INTO_invoices c a s d),
                                  RevalidatePath ''/dashboard/invoices'',
                                  Redirect ''/dashboard/invoices'']"
    by auto
  with run show ?thesis
    by (simp add: create_12_34)
qed

section \<open>The amount in cents\<close>

text \<open>
  What the actions compute. For every valid create or update submission the amount
  bound to the statement is the product \<^verbatim>\<open>amount * 100\<close> of the coerced amount, a
  binary64 multiplication with no rounding after it; an accepted insert stores it in
  the new row and an accepted update in the matched rows. A submitted amount of
  \<^verbatim>\<open>12.34\<close> gives exactly \<^verbatim>\<open>1234\<close>.
\<close>

lemma amount_in_cents:
  assumes "\<not> customerId_offends fd" "\<not> amount_offends fd" "\<not> status_offends fd"
  defines "cents \<equiv> Num (js_mul (ToNumber (get fd ''amount'')) (js_nat 100))"
  shows "(\<exists>d rest. effects (snd (createInvoice env prevState fd w))
            = effects w @ Sql (INSERT_INTO_invoices (get fd ''customerId'') cents
                                 (get fd ''status'') d) # rest) \<and>
         (\<exists>rest. effects (snd (updateInvoice env id' prevState fd w))
            = effects w @ Sql (UPDATE_invoices_SET (get fd ''customerId'') cents
                                 (get fd ''status'') id') # rest) \<and>
         (fst (createInvoice env prevState fd w) = NEXT_REDIRECT ''/dashboard/invoices''
            \<longrightarrow> map amount (invoices (snd (createInvoice env prevState fd w)))
                  = map amount (invoices w) @ [cents]) \<and>
         (fst (updateInvoice env id' prevState fd w) = NEXT_REDIRECT ''/dashboard/invoices''
            \<longrightarrow> (\<forall>r \<in> set (invoices (snd (updateInvoice env id' prevState fd w))).
                    inv_id r = id' \<longrightarrow> amount r = cents)) \<and>
         (get fd ''amount'' = Str ''12.34'' \<longrightarrow> cents = Num (StringToNumber ''1234''))"
proof (intro conjI)
  note c = createInvoice_valid [OF assms(1-3) refl, of env prevState w]
  note u = updateInvoice_valid [OF assms(1-3) refl, of env id' prevState w]
  show "\<exists>d rest. effects (snd (createInvoice env prevState fd w))
            = effects w @ Sql (INSERT_INTO_invoices (get fd ''customerId'') cents
                                 (get fd ''status'') d) # rest"
    by (simp add: c cents_def split: option.split)
  show "\<exists>rest. effects (snd (updateInvoice env id' prevState fd w))
            = effects w @ Sql (UPDATE_invoices_SET (get fd ''customerId'') cents
                                 (get fd ''status'') id') # rest"
    by (simp add: u cents_def split: option.split)
  show "fst (createInvoice env prevState fd w) = NEXT_REDIRECT ''/dashboard/invoices''
            \<longrightarrow> map amount (invoices (snd (createInvoice env prevState fd w)))
                  = map amount (invoices w) @ [cents]"
    by (simp add: c cents_def split: option.split)
  show "fst (updateInvoice env id' prevState fd w) = NEXT_REDIRECT ''/dashboard/invoices''
            \<longrightarrow> (\<forall>r \<in> set (invoices (snd (updateInvoice env id' prevState fd w))).
                    inv_id r = id' \<longrightarrow> amount r = cents)"
  proof (cases "sql_error env (UPDATE_invoices_SET (get fd ''customerId'') cents
                                 (get fd ''status'') id') (invoices w)")
    case None
    then have "invoices (snd (updateInvoice env id' prevState fd w))
                 = execute env (UPDATE_invoices_SET (get fd ''customerId'') cents
                                  (get fd ''status'') id') (invoices w)"
      by (simp add: u cents_def)
    then show ?thesis
      using execute_update_matched by metis
  next
    case (Some e)
    then show ?thesis
      by (simp add: u cents_def)
  qed
  show "get fd ''amount'' = Str ''12.34'' \<longrightarrow> cents = Num (StringToNumber ''1234'')"
    by (simp add: cents_def cents_12_34 Number_1234)
qed

lemma amount_in_cents_example:
  "\<not> customerId_offends (invoice_form ''12.34'') \<and> \<not> amount_offends (invoice_form ''12.34'') \<and>
   \<not> status_offends (invoice_form ''12.34'') \<and>
   get (invoice_form ''12.34'') ''amount'' = Str ''12.34'' \<and>
   fst (createInvoice accepting_env no_state (invoice_form ''12.34'') two_invoices)
     = NEXT_REDIRECT ''/dashboard/invoices'' \<and>
   map amount (invoices (snd (createInvoice accepting_env no_state (invoice_form ''12.34'')
                               two_invoices)))
     = [Num (js_nat 500), Num (js_nat 700), Num (StringToNumber ''1234'')]"
proof -
  let ?run = "createInvoice accepting_env no_state (invoice_form ''12.34'') two_invoices"
  let ?cents = "Num (js_mul (ToNumber (get (invoice_form ''12.34'') ''amount'')) (js_nat 100))"
  note valid = invoice_form_fields_valid(1) [of "''12.34''"] amount_12_34_valid
    invoice_form_fields_valid(2) [of "''12.34''"]
  from amount_in_cents
         [OF valid, where env = accepting_env and prevState = no_state and w = two_invoices
            and id' = "''inv-1''"]
  have stored: "fst ?run = NEXT_REDIRECT ''/dashboard/invoices''
                  \<longrightarrow> map amount (invoices (snd ?run)) = map amount (invoices two_invoices) @ [?cents]"
    and exact: "get (invoice_form ''12.34'') ''amount'' = Str ''12.34''
                  \<longrightarrow> ?cents = Num (StringToNumber ''1234'')"
    by blast+
  have redirected: "fst ?run = NEXT_REDIRECT ''/dashboard/invoices''"
    by (simp add: create_12_34)
  have amt: "get (invoice_form ''12.34'') ''amount'' = Str ''12.34''"
    by (simp add: get_invoice_form)
  from exact amt have "?cents = Num (StringToNumber ''1234'')"
    by blast
  with stored redirected
  have "map amount (invoices (snd ?run))
          = map amount (invoices two_invoices) @ [Num (StringToNumber ''1234'')]"
    by metis
  then have "map amount (invoices (snd ?run))
          = [Num (js_nat 500), Num (js_nat 700), Num (StringToNumber ''1234'')]"
    by (simp only: amounts_two_invoices append.simps)
  with valid amt redirected show ?thesis
    by blast
qed

text \<open>
  Claim C3 says that the conversion to cents is exact for every amount of two decimals.
  The code misses that. For the amount \<^verbatim>\<open>1.10\<close>, with a customer and a status that are
  valid, the statement that create sends and the statement that update sends both bind
  the amount \<^verbatim>\<open>110.00000000000001\<close>, whatever the storage, the clock and the table are;
  and that number is not \<^verbatim>\<open>110\<close>.
\<close>

theorem amount_1_10_is_not_whole_cents:
  "(\<exists>d rest. effects (snd (createInvoice env prevState (invoice_form ''1.10'') w))
      = effects w @ Sql (INSERT_INTO_invoices (Str ''c7'')
                           (Num (StringToNumber ''110.00000000000001'')) (Str ''paid'') d) # rest) \<and>
   (\<exists>rest. effects (snd (updateInvoice env id' prevState (invoice_form ''1.10'') w))
      = effects w @ Sql (UPDATE_invoices_SET (Str ''c7'')
                           (Num (StringToNumber ''110.00000000000001'')) (Str ''paid'') id') # rest) \<and>
   StringToNumber ''110.00000000000001'' \<noteq> StringToNumber ''110''"
proof (intro conjI)
  note valid = invoice_form_fields_valid(1) [of "''1.10''"] amount_1_10_valid
    invoice_form_fields_valid(2) [of "''1.10''"]
  show "\<exists>d rest. effects (snd (createInvoice env prevState (invoice_form ''1.10'') w))
      = effects w @ Sql (INSERT_INTO_invoices (Str ''c7'')
                           (Num (StringToNumber ''110.00000000000001'')) (Str ''paid'') d) # rest"
    by (simp add: createInvoice_valid [OF valid refl] get_invoice_form cents_1_10
          Number_110_00000000000001 split: option.split)
  show "\<exists>rest. effects (snd (updateInvoice env id' prevState (invoice_form ''1.10'') w))
      = effects w @ Sql (UPDATE_invoices_SET (Str ''c7'')
                           (Num (StringToNumber ''110.00000000000001'')) (Str ''paid'') id') # rest"
    by (simp add: updateInvoice_valid [OF valid refl] get_invoice_form cents_1_10
          Number_110_00000000000001 split: option.split)
  show "StringToNumber ''110.00000000000001'' \<noteq> StringToNumber ''110''"
    by (simp add: Number_110 Number_110_00000000000001)
qed

section \<open>Authentication outcomes\<close>

text \<open>
  Claim C5. \<^verbatim>\<open>authenticate\<close> has four outcomes. When \<^verbatim>\<open>signIn\<close> resolves it returns no
  value; when \<^verbatim>\<open>signIn\<close> throws an \<^verbatim>\<open>AuthError\<close> of type \<^verbatim>\<open>CredentialsSignin\<close> it returns
  \<^verbatim>\<open>Invalid credentials.\<close>; when \<^verbatim>\<open>signIn\<close> throws any other \<^verbatim>\<open>AuthError\<close> it returns
  \<^verbatim>\<open>Something went wrong.\<close>; when \<^verbatim>\<open>signIn\<close> throws anything else it throws that same
  value again. Whatever \<^verbatim>\<open>authenticate\<close> throws is what \<^verbatim>\<open>signIn\<close> threw, and no
  \<^verbatim>\<open>AuthError\<close>.
\<close>

theorem authenticate_outcomes:
  "(signIn ''credentials'' fd = None \<longrightarrow> authenticate signIn prevState fd = AuthReturn None) \<and>
   (signIn ''credentials'' fd = Some (AuthError ''CredentialsSignin'')
      \<longrightarrow> authenticate signIn prevState fd = AuthReturn (Some ''Invalid credentials.'')) \<and>
   (\<forall>ty. signIn ''credentials'' fd = Some (AuthError ty) \<and> ty \<noteq> ''CredentialsSignin''
      \<longrightarrow> authenticate signIn prevState fd = AuthReturn (Some ''Something went wrong.'')) \<and>
   (\<forall>e. signIn ''credentials'' fd = Some (OtherError e)
      \<longrightarrow> authenticate signIn prevState fd = AuthThrow (OtherError e)) \<and>
   (\<forall>x. authenticate signIn prevState fd = AuthThrow x
      \<longrightarrow> signIn ''credentials'' fd = Some x \<and> (\<exists>e. x = OtherError e))"
  by (auto simp: authenticate_def split: option.splits thrown.splits if_splits)

theorem authenticate_outcomes_witness:
  "authenticate (\<lambda>provider form. None) None [] = AuthReturn None \<and>
   authenticate (\<lambda>provider form. Some (AuthError ''CredentialsSignin'')) None []
     = AuthReturn (Some ''Invalid credentials.'') \<and>
   authenticate (\<lambda>provider form. Some (AuthError ''CallbackRouteError'')) None []
     = AuthReturn (Some ''Something went wrong.'') \<and>
   authenticate (\<lambda>provider form. Some (OtherError ''NEXT_REDIRECT'')) None []
     = AuthThrow (OtherError ''NEXT_REDIRECT'')"
proof (intro conjI)
  show "authenticate (\<lambda>provider form. None) None [] = AuthReturn None"
    by (rule authenticate_outcomes [THEN conjunct1, rule_format]) simp
  show "authenticate (\<lambda>provider form. Some (AuthError ''CredentialsSignin'')) None []
          = AuthReturn (Some ''Invalid credentials.'')"
    by (rule authenticate_outcomes [THEN conjunct2, THEN conjunct1, rule_format]) simp
  show "authenticate (\<lambda>provider form. Some (AuthError ''CallbackRouteError'')) None []
          = AuthReturn (Some ''Something went wrong.'')"
    by (rule authenticate_outcomes
               [THEN conjunct2, THEN conjunct2, THEN conjunct1, rule_format,
                where ty = "''CallbackRouteError''"])
      simp
  show "authenticate (\<lambda>provider form. Some (OtherError ''NEXT_REDIRECT'')) None []
          = AuthThrow (OtherError ''NEXT_REDIRECT'')"
    by (rule authenticate_outcomes
               [THEN conjunct2, THEN conjunct2, THEN conjunct2, THEN conjunct1, rule_format])
      simp
qed

section \<open>What an update writes\<close>

text \<open>
  Claim C6. Whatever \<^verbatim>\<open>updateInvoice\<close> does, the \<^verbatim>\<open>id\<close> and \<^verbatim>\<open>date\<close> columns of every
  invoice stay as they were and every row whose \<^verbatim>\<open>id\<close> is not the given one stays as
  it was; when the update succeeds, a row whose \<^verbatim>\<open>id\<close> is the given one differs from
  before in its \<^verbatim>\<open>customer_id\<close>, \<^verbatim>\<open>amount\<close> and \<^verbatim>\<open>status\<close> only, which hold the
  submitted customer, the amount in cents and the submitted status.
\<close>

theorem update_frame:
  assumes "updateInvoice env id' prevState fd w = (r, w')"
  shows "map inv_id (invoices w') = map inv_id (invoices w) \<and>
         map date (invoices w') = map date (invoices w) \<and>
         (\<forall>n < length (invoices w).
            inv_id (invoices w ! n) \<noteq> id' \<longrightarrow> invoices w' ! n = invoices w ! n) \<and>
         (r = NEXT_REDIRECT ''/dashboard/invoices'' \<longrightarrow>
            (\<forall>n < length (invoices w).
               inv_id (invoices w ! n) = id' \<longrightarrow>
                 invoices w' ! n =
                   (invoices w ! n)
                     \<lparr>customer_id := get fd ''customerId'',
                      amount := Num (js_mul (ToNumber (get fd ''amount'')) (js_nat 100)),
                      status := get fd ''status''\<rparr>))"
proof (cases "customerId_offends fd \<or> amount_offends fd \<or> status_offends fd")
  case True
  with assms have "w' = w" and "r \<noteq> NEXT_REDIRECT ''/dashboard/invoices''"
    by (auto simp: updateInvoice_invalid)
  then show ?thesis
    by simp
next
  case False
  let ?q = "UPDATE_invoices_SET (get fd ''customerId'')
              (Num (js_mul (ToNumber (get fd ''amount'')) (js_nat 100))) (get fd ''status'') id'"
  from False have valid: "\<not> customerId_offends fd" "\<not> amount_offends fd" "\<not> status_offends fd"
    by simp_all
  note run = updateInvoice_valid [OF valid refl, of env id' prevState w]
  show ?thesis
  proof (cases "sql_error env ?q (invoices w)")
    case None
    with run assms have "invoices w' = execute env ?q (invoices w)"
      by auto
    then show ?thesis
      by (simp add: execute_update_frame del: execute.simps)
  next
    case (Some e)
    with run assms have "invoices w' = invoices w" and "r \<noteq> NEXT_REDIRECT ''/dashboard/invoices''"
      by auto
    then show ?thesis
      by simp
  qed
qed

theorem update_frame_witness:
  "updateInvoice accepting_env ''inv-1'' no_state (invoice_form ''12.34'') two_invoices
     = (NEXT_REDIRECT ''/dashboard/invoices'',
        snd (updateInvoice accepting_env ''inv-1'' no_state (invoice_form ''12.34'') two_invoices)) \<and>
   map inv_id (invoices (snd (updateInvoice accepting_env ''inv-1'' no_state
                                (invoice_form ''12.34'') two_invoices)))
     = [''inv-1'', ''inv-2''] \<and>
   map date (invoices (snd (updateInvoice accepting_env ''inv-1'' no_state
                              (invoice_form ''12.34'') two_invoices)))
     = [Str ''2024-01-15'', Str ''2024-02-20''] \<and>
   invoices (snd (updateInvoice accepting_env ''inv-1'' no_state (invoice_form ''12.34'')
                    two_invoices)) ! 1
     = invoices two_invoices ! 1 \<and>
   invoices (snd (updateInvoice accepting_env ''inv-1'' no_state (invoice_form ''12.34'')
                    two_invoices)) ! 0
     = \<lparr>inv_id = ''inv-1'', customer_id = Str ''c7'', amount = Num (StringToNumber ''1234''),
        status = Str ''paid'', date = Str ''2024-01-15''\<rparr>"
proof -
  let ?run = "updateInvoice accepting_env ''inv-1'' no_state (invoice_form ''12.34'') two_invoices"
  have run: "?run = (NEXT_REDIRECT ''/dashboard/invoices'', snd ?run)"
    by (simp add: update_12_34)
  from update_frame [OF run]
  have ids: "map inv_id (invoices (snd ?run)) = map inv_id (invoices two_invoices)"
    and dates: "map date (invoices (snd ?run)) = map date (invoices two_invoices)"
    by blast+
  have "map inv_id (invoices two_invoices) = [''inv-1'', ''inv-2'']"
    and "map date (invoices two_invoices) = [Str ''2024-01-15'', Str ''2024-02-20'']"
    by (simp_all add: two_invoices_def)
  with ids dates
  have "map inv_id (invoices (snd ?run)) = [''inv-1'', ''inv-2'']"
    and "map date (invoices (snd ?run)) = [Str ''2024-01-15'', Str ''2024-02-20'']"
    by simp_all
  moreover have "invoices (snd ?run) ! 1 = invoices two_invoices ! 1"
    by (simp add: update_12_34) (simp add: two_invoices_def)
  moreover have "invoices (snd ?run) ! 0
     = \<lparr>inv_id = ''inv-1'', customer_id = Str ''c7'', amount = Num (StringToNumber ''1234''),
        status = Str ''paid'', date = Str ''2024-01-15''\<rparr>"
    by (simp add: update_12_34 Number_1234)
  ultimately show ?thesis
    using run by blast
qed

section \<open>The search handler\<close>

text \<open>
  Claim C7. Whatever the parameters and the term were, the parameters the handler
  computes have \<^verbatim>\<open>page\<close> exactly once, as \<^verbatim>\<open>1\<close>; they have \<^verbatim>\<open>query\<close> exactly once, as
  the term, when the term is not empty, and no \<^verbatim>\<open>query\<close> at all when it is empty; and
  the handler calls \<^verbatim>\<open>replace\<close> with the same path, a question mark and the serialised
  parameters, which overwrites the current history entry and adds none.
\<close>

theorem search_resets_page_and_sets_query:
  "params_getAll (search_params sp term) ''page'' = [''1''] \<and>
   (term \<noteq> [] \<longrightarrow> params_getAll (search_params sp term) ''query'' = [term]) \<and>
   (term = [] \<longrightarrow> ''query'' \<notin> fst ` set (search_params sp term)) \<and>
   handleSearch sp pathname term
     = Replace (pathname @ ''?'' @ params_toString (search_params sp term)) \<and>
   navigate (handleSearch sp pathname term) (history @ [current])
     = history @ [pathname @ ''?'' @ params_toString (search_params sp term)]"
  by (simp add: search_params_def handleSearch_def Let_def getAll_params_set getAll_params_set_other
        getAll_params_delete_other names_params_delete)

theorem search_resets_page_and_sets_query_witness:
  "params_getAll (search_params [(''page'', ''5''), (''sort'', ''asc'')] ''lee'') ''page'' = [''1''] \<and>
   params_getAll (search_params [(''page'', ''5''), (''sort'', ''asc'')] ''lee'') ''query'' = [''lee''] \<and>
   handleSearch [(''page'', ''5''), (''sort'', ''asc'')] ''/dashboard/invoices'' ''lee''
     = Replace ''/dashboard/invoices?page=1&sort=asc&query=lee'' \<and>
   navigate (handleSearch [(''page'', ''5''), (''sort'', ''asc'')] ''/dashboard/invoices'' ''lee'')
      [''/dashboard'', ''/dashboard/invoices?page=5&sort=asc'']
     = [''/dashboard'', ''/dashboard/invoices?page=1&sort=asc&query=lee''] \<and>
   ''query'' \<notin> fst ` set (search_params [(''query'', ''lee''), (''page'', ''5'')] []) \<and>
   handleSearch [(''query'', ''lee''), (''page'', ''5'')] ''/dashboard/invoices'' []
     = Replace ''/dashboard/invoices?page=1''"
proof -
  let ?sp = "[(''page'', ''5''), (''sort'', ''asc'')]"
  let ?sp' = "[(''query'', ''lee''), (''page'', ''5'')]"
  note typed = search_resets_page_and_sets_query
    [of "?sp" "''lee''" "''/dashboard/invoices''" "[''/dashboard'']"
       "''/dashboard/invoices?page=5&sort=asc''"]
  note cleared = search_resets_page_and_sets_query [of "?sp'" "[]" "''/dashboard/invoices''"]
  from typed have "params_getAll (search_params ?sp ''lee'') ''page'' = [''1'']"
    and "params_getAll (search_params ?sp ''lee'') ''query'' = [''lee'']"
    and "handleSearch ?sp ''/dashboard/invoices'' ''lee''
           = Replace (''/dashboard/invoices'' @ ''?'' @ params_toString (search_params ?sp ''lee''))"
    and "navigate (handleSearch ?sp ''/dashboard/invoices'' ''lee'')
           ([''/dashboard''] @ [''/dashboard/invoices?page=5&sort=asc''])
           = [''/dashboard''] @ [''/dashboard/invoices'' @ ''?''
                                   @ params_toString (search_params ?sp ''lee'')]"
    by simp_all
  moreover from cleared have "''query'' \<notin> fst ` set (search_params ?sp' [])"
    and "handleSearch ?sp' ''/dashboard/invoices'' []
           = Replace (''/dashboard/invoices'' @ ''?'' @ params_toString (search_params ?sp' []))"
    by simp_all
  ultimately show ?thesis
    unfolding search_lee search_cleared by simp
qed

text \<open>
  Claim C10. Whatever the parameters and the term were, the parameters other than
  \<^verbatim>\<open>page\<close> and \<^verbatim>\<open>query\<close> are, in the parameters the handler computes, the same pairs
  in the same order as before, so every such name keeps all its values; and the query
  string of the replaced URL is the serialisation of the computed parameters.
\<close>

theorem search_keeps_other_params:
  "filter (\<lambda>(k, x). k \<noteq> ''page'' \<and> k \<noteq> ''query'') (search_params sp term)
     = filter (\<lambda>(k, x). k \<noteq> ''page'' \<and> k \<noteq> ''query'') sp \<and>
   (\<forall>name. name \<noteq> ''page'' \<and> name \<noteq> ''query''
      \<longrightarrow> params_getAll (search_params sp term) name = params_getAll sp name) \<and>
   handleSearch sp pathname term
     = Replace (pathname @ ''?'' @ params_toString (search_params sp term))"
  by (simp add: search_params_def handleSearch_def Let_def filter_params_set filter_params_delete
        getAll_params_set_other getAll_params_delete_other)

theorem search_keeps_other_params_witness:
  "filter (\<lambda>(k, x). k \<noteq> ''page'' \<and> k \<noteq> ''query'')
      (search_params [(''sort'', ''asc''), (''page'', ''5''), (''tag'', ''a b''), (''query'', ''old'')]
         ''lee'')
     = [(''sort'', ''asc''), (''tag'', ''a b'')] \<and>
   params_getAll
      (search_params [(''sort'', ''asc''), (''page'', ''5''), (''tag'', ''a b''), (''query'', ''old'')]
         ''lee'') ''sort''
     = [''asc''] \<and>
   params_getAll
      (search_params [(''sort'', ''asc''), (''page'', ''5''), (''tag'', ''a b''), (''query'', ''old'')]
         ''lee'') ''tag''
     = [''a b''] \<and>
   handleSearch [(''sort'', ''asc''), (''page'', ''5''), (''tag'', ''a b''), (''query'', ''old'')]
      ''/dashboard/invoices'' ''lee''
     = Replace ''/dashboard/invoices?sort=asc&page=1&tag=a+b&query=lee''"
proof -
  let ?sp = "[(''sort'', ''asc''), (''page'', ''5''), (''tag'', ''a b''), (''query'', ''old'')]"
  note kept = search_keeps_other_params [of "?sp" "''lee''" "''/dashboard/invoices''"]
  from kept have "filter (\<lambda>(k, x). k \<noteq> ''page'' \<and> k \<noteq> ''query'') (search_params ?sp ''lee'')
                    = filter (\<lambda>(k, x). k \<noteq> ''page'' \<and> k \<noteq> ''query'') ?sp"
    and others: "\<forall>name. name \<noteq> ''page'' \<and> name \<noteq> ''query''
           \<longrightarrow> params_getAll (search_params ?sp ''lee'') name = params_getAll ?sp name"
    and url: "handleSearch ?sp ''/dashboard/invoices'' ''lee''
           = Replace (''/dashboard/invoices'' @ ''?'' @ params_toString (search_params ?sp ''lee''))"
    by blast+
  then have "filter (\<lambda>(k, x). k \<noteq> ''page'' \<and> k \<noteq> ''query'') (search_params ?sp ''lee'')
               = [(''sort'', ''asc''), (''tag'', ''a b'')]"
    by simp
  moreover from others have "params_getAll (search_params ?sp ''lee'') ''sort'' = params_getAll ?sp ''sort''"
    and "params_getAll (search_params ?sp ''lee'') ''tag'' = params_getAll ?sp ''tag''"
    by simp_all
  then have "params_getAll (search_params ?sp ''lee'') ''sort'' = [''asc'']"
    and "params_getAll (search_params ?sp ''lee'') ''tag'' = [''a b'']"
    by (simp_all add: params_getAll_def)
  moreover from url have "handleSearch ?sp ''/dashboard/invoices'' ''lee''
     = Replace ''/dashboard/invoices?sort=asc&page=1&tag=a+b&query=lee''"
    unfolding search_others by simp
  ultimately show ?thesis
    by blast
qed


end
